theory Spec2Isabelle
  imports Main "HOL-Library.AList"
begin

section \<open>Python values and the HTTP collaborator\<close>

text \<open>
  The models of \<^verbatim>\<open>diaspy/models.py\<close> talk to a pod through an injected connection and
  keep the decoded JSON answers. A decoded JSON document is a value of \<open>json\<close>; an object
  is an association list in insertion order, read with \<open>map_of\<close> (the decoder keeps one
  entry per key). Floating-point numbers are left out of the value type.
\<close>

datatype json =
    JNull
  | JBool bool
  | JInt int
  | JStr string
  | JList "json list"
  | JObj "(string \<times> json) list"

text \<open>
  A text is either a literal or \<open>Format t args\<close>, which stands for the text of
  \<^verbatim>\<open>t.format(*args)\<close>: the template and the values put into it, in the order of the call.
\<close>

datatype fmt = Text string | Format string "json list"

datatype error =
    AspectError fmt
  | ConversationError fmt
  | PostError fmt
  | CSRFProtectionKickedIn
  | JSONDecodeError
  | KeyError
  | TypeError
  | ValueError
  | RecursionError
  | UnboundLocalError

text \<open>Truth value of a Python object in a condition.\<close>

fun py_truthy :: "json \<Rightarrow> bool" where
  "py_truthy JNull = False"
| "py_truthy (JBool b) = b"
| "py_truthy (JInt i) = (i \<noteq> 0)"
| "py_truthy (JStr s) = (s \<noteq> [])"
| "py_truthy (JList xs) = (xs \<noteq> [])"
| "py_truthy (JObj kvs) = (kvs \<noteq> [])"

text \<open>
  \<^verbatim>\<open>obj[key]\<close> with a string key: a dict answers or raises \<^verbatim>\<open>KeyError\<close>; a list, a string
  or a scalar raises \<^verbatim>\<open>TypeError\<close>.
\<close>

fun py_getitem :: "json \<Rightarrow> string \<Rightarrow> error + json" where
  "py_getitem (JObj kvs) k = (case map_of kvs k of None \<Rightarrow> Inl KeyError | Some v \<Rightarrow> Inr v)"
| "py_getitem _ k = Inl TypeError"

text \<open>
  \<^verbatim>\<open>obj[key] = v\<close> with a string key: a dict replaces the entry where it stands or appends
  a new one; everything else raises \<^verbatim>\<open>TypeError\<close>.
\<close>

fun py_setitem :: "json \<Rightarrow> string \<Rightarrow> json \<Rightarrow> error + json" where
  "py_setitem (JObj kvs) k v = Inr (JObj (AList.update k v kvs))"
| "py_setitem _ k v = Inl TypeError"

text \<open>
  \<^verbatim>\<open>for c in obj\<close>: a list yields its items, a dict its keys, a string its characters;
  \<^verbatim>\<open>None\<close>, a bool and an int are not iterable.
\<close>

fun py_iter :: "json \<Rightarrow> error + json list" where
  "py_iter (JList xs) = Inr xs"
| "py_iter (JObj kvs) = Inr (map (\<lambda>kv. JStr (fst kv)) kvs)"
| "py_iter (JStr s) = Inr (map (\<lambda>c. JStr [c]) s)"
| "py_iter _ = Inl TypeError"

text \<open>A list comprehension whose element expression may raise: the first exception wins.\<close>

fun map_err :: "('a \<Rightarrow> error + 'b) \<Rightarrow> 'a list \<Rightarrow> error + 'b list" where
  "map_err f [] = Inr []"
| "map_err f (x # xs) =
     (case f x of
        Inl e \<Rightarrow> Inl e
      | Inr y \<Rightarrow> (case map_err f xs of Inl e \<Rightarrow> Inl e | Inr ys \<Rightarrow> Inr (y # ys)))"

datatype http_verb = GET | POST | PUT | DELETE

text \<open>
  A request is the verb and the relative URL handed to the connection. Headers, query
  parameters and form fields carry the connection's CSRF token and do not influence any
  branch of the models, so they are not part of the request.
\<close>

record request =
  verb :: http_verb
  path :: fmt

text \<open>
  What \<^verbatim>\<open>.json()\<close> can raise instead of returning the decoded body: \<^verbatim>\<open>JSONDecodeError\<close> for a
  body that is not JSON (an empty body among them), \<^verbatim>\<open>RecursionError\<close> for a body nested too
  deeply for the decoder, \<^verbatim>\<open>ValueError\<close> for an integer literal with more digits than the
  interpreter converts.
\<close>

datatype decode_failure = Malformed | NestedTooDeep | IntTooLong

fun decode_error :: "decode_failure \<Rightarrow> error" where
  "decode_error Malformed = JSONDecodeError"
| "decode_error NestedTooDeep = RecursionError"
| "decode_error IntTooLong = ValueError"

text \<open>
  A response is its status code and the outcome of \<^verbatim>\<open>.json()\<close>: the decoded body, or the
  failure of the decoder.
\<close>

record response =
  status_code :: int
  body :: "decode_failure + json"

definition response_json :: "response \<Rightarrow> error + json" where
  "response_json r = (case body r of Inl f \<Rightarrow> Inl (decode_error f) | Inr j \<Rightarrow> Inr j)"

text \<open>
  Truth value of a response object (\<^verbatim>\<open>requests.Response.__bool__\<close>): false for the client
  and server error statuses 400 to 599.
\<close>

definition response_bool :: "response \<Rightarrow> bool" where
  "response_bool r = (\<not> (400 \<le> status_code r \<and> status_code r < 600))"

text \<open>The pod, seen through the connection: every request gets some response.\<close>

type_synonym connection = "request \<Rightarrow> response"

text \<open>
  What a method call leaves behind: the object after the call (assignments made before an
  exception stay), the requests sent, in order, and the returned value or the exception.
\<close>

record ('s, 'a) outcome =
  after :: 's
  sent :: "request list"
  result :: "error + 'a"

section \<open>Aspect\<close>

text \<open>
  \<^verbatim>\<open>addUser\<close> starts with \<^verbatim>\<open>response = None\<close> and assigns \<^verbatim>\<open>request.json()\<close> inside a
  \<^verbatim>\<open>try\<close> whose handler names \<^verbatim>\<open>json.decoder.JSONDecodeError\<close> only: that exception leaves
  \<^verbatim>\<open>response\<close> at \<^verbatim>\<open>None\<close>, any other one leaves the method.
\<close>

record aspect =
  aspect_id :: json
  aspect_name :: json
  aspect_cached :: json

definition addUser :: "connection \<Rightarrow> aspect \<Rightarrow> json \<Rightarrow> (aspect, json) outcome" where
  "addUser conn self user_id =
     (let rq = \<lparr>verb = POST, path = Text ''aspect_memberships''\<rparr>;
          request = conn rq;
          raise = (\<lambda>e. \<lparr>after = self, sent = [rq], result = Inl e\<rparr>)
      in if status_code request = 400
         then raise (AspectError (Format ''duplicate record, user already exists in aspect: {0}''
                                    [JInt (status_code request)]))
         else if status_code request = 404
         then raise (AspectError (Format ''user not found from this pod: {0}''
                                    [JInt (status_code request)]))
         else if status_code request \<noteq> 200
         then raise (AspectError (Format ''wrong status code: {0}'' [JInt (status_code request)]))
         else
           (case (case response_json request of
                    Inl e \<Rightarrow> if e = JSONDecodeError then Inr JNull else Inl e
                  | Inr j \<Rightarrow> Inr j) of
              Inl e \<Rightarrow> raise e
            | Inr response \<Rightarrow>
                if response = JNull
                then raise CSRFProtectionKickedIn
                else \<lparr>after = self, sent = [rq], result = Inr response\<rparr>))"

section \<open>Regular expressions\<close>

text \<open>
  The patterns of \<^verbatim>\<open>Notification\<close> are sequences of three kinds of items: a literal text, one
  character of a class (\<^verbatim>\<open>[...]{1}\<close>) and a greedy run of at least one character of a class
  (\<^verbatim>\<open>[...]+\<close>); an item may be a capturing group. None of them looks at the text before the
  position where matching starts. The patterns are ASCII, so they match the same stretches
  whether a text is read as characters or as the bytes of its UTF-8 form.
\<close>

datatype atom = Lit string | OneOf "char list" | PlusOf "char list"

datatype tok = Plain atom | Group atom

fun atom_of :: "tok \<Rightarrow> atom" where
  "atom_of (Plain a) = a"
| "atom_of (Group a) = a"

text \<open>
  The ways one item can match at the start of \<open>s\<close>, as pairs of the text consumed and the
  rest, in the order in which the backtracking matcher tries them: a greedy run takes the
  longest stretch first and gives characters back one at a time.
\<close>

fun atom_matches :: "atom \<Rightarrow> string \<Rightarrow> (string \<times> string) list" where
  "atom_matches (Lit l) s = (if take (length l) s = l then [(l, drop (length l) s)] else [])"
| "atom_matches (OneOf cs) s =
     (case s of [] \<Rightarrow> [] | c # r \<Rightarrow> if c \<in> set cs then [([c], r)] else [])"
| "atom_matches (PlusOf cs) s =
     map (\<lambda>k. (take k s, drop k s)) (rev [1 ..< Suc (length (takeWhile (\<lambda>c. c \<in> set cs) s))])"

text \<open>
  All matches of a pattern at the start of \<open>s\<close>, in backtracking order, each with the matched
  text (group 0), the captured groups and the rest of the input.
\<close>

fun seq_matches :: "tok list \<Rightarrow> string \<Rightarrow> (string \<times> string list \<times> string) list" where
  "seq_matches [] s = [([], [], s)]"
| "seq_matches (t # ts) s =
     concat (map (\<lambda>(a, r).
                map (\<lambda>(m, gs, r'). (a @ m, (case t of Group _ \<Rightarrow> a # gs | Plain _ \<Rightarrow> gs), r'))
                    (seq_matches ts r))
             (atom_matches (atom_of t) s))"

text \<open>The match found at a position is the first one in backtracking order.\<close>

definition re_match :: "tok list \<Rightarrow> string \<Rightarrow> (string \<times> string list \<times> string) option" where
  "re_match re s = (case seq_matches re s of [] \<Rightarrow> None | x # _ \<Rightarrow> Some x)"

text \<open>\<^verbatim>\<open>pattern.search(s)\<close>: the match at the leftmost position that has one.\<close>

fun search :: "tok list \<Rightarrow> string \<Rightarrow> (string \<times> string list \<times> string) option" where
  "search re [] = re_match re []"
| "search re (c # cs) = (case re_match re (c # cs) of Some x \<Rightarrow> Some x | None \<Rightarrow> search re cs)"

text \<open>
  \<^verbatim>\<open>pattern.findall(s)\<close> for a pattern with at most one group: the group of every match (the
  matched text when there is no group), scanning from the left and resuming where the last
  match ended; after a match that consumed nothing the scan moves on by one character.
\<close>

definition findall_item :: "string \<Rightarrow> string list \<Rightarrow> string" where
  "findall_item m gs = (case gs of [] \<Rightarrow> m | g # _ \<Rightarrow> g)"

function findall :: "tok list \<Rightarrow> string \<Rightarrow> string list" where
  "findall re s =
     (case re_match re s of
        None \<Rightarrow> (case s of [] \<Rightarrow> [] | _ # t \<Rightarrow> findall re t)
      | Some (m, gs, r) \<Rightarrow>
          if length r < length s then findall_item m gs # findall re r
          else findall_item m gs # (case s of [] \<Rightarrow> [] | _ # t \<Rightarrow> findall re t))"
  by pat_completeness auto
termination
  by (relation "measure (\<lambda>(re, s). length s)") auto

declare findall.simps [simp del]

text \<open>The character classes \<^verbatim>\<open>[0-9a-f]\<close>, \<^verbatim>\<open>[0-9]\<close> and the class of the two quote characters.\<close>

definition hexdigit :: "char list" where
  "hexdigit = ''0123456789abcdef''"

definition digit :: "char list" where
  "digit = ''0123456789''"

definition quote :: "char list" where
  "quote = [CHR 0x22, CHR 0x27]"

text \<open>
  \<^verbatim>\<open>int(s)\<close> for a text without sign, blanks or underscores (here \<open>s\<close> is a run of characters of
  \<^verbatim>\<open>[0-9a-f]\<close>): the decimal value, or \<^verbatim>\<open>ValueError\<close> when a character is no decimal digit.
  The interpreter's optional limit on the number of digits is not modelled.
\<close>

definition py_int :: "string \<Rightarrow> error + int" where
  "py_int s =
     (if s \<noteq> [] \<and> list_all (\<lambda>c. c \<in> set digit) s
      then Inr (foldl (\<lambda>a c. 10 * a + (of_char c - 48)) 0 s)
      else Inl ValueError)"

section \<open>Notification\<close>

record notification =
  notification_type :: json
  notification_data :: json
  notification_id :: json
  notification_unread :: json

text \<open>
  \<^verbatim>\<open>Notification.__init__\<close>: the envelope's \<^verbatim>\<open>type\<close> selects the sub-object that becomes
  \<^verbatim>\<open>_data\<close>; \<^verbatim>\<open>id\<close> and \<^verbatim>\<open>unread\<close> are copied out of it. A \<^verbatim>\<open>type\<close> that is a list or a
  dict is unhashable; any other value that is not a string is no key of a decoded object.
\<close>

definition Notification :: "json \<Rightarrow> error + notification" where
  "Notification data =
     (case py_getitem data ''type'' of
        Inl e \<Rightarrow> Inl e
      | Inr ty \<Rightarrow>
          (case (case ty of
                   JStr t \<Rightarrow> py_getitem data t
                 | JList _ \<Rightarrow> Inl TypeError
                 | JObj _ \<Rightarrow> Inl TypeError
                 | _ \<Rightarrow> Inl KeyError) of
             Inl e \<Rightarrow> Inl e
           | Inr d \<Rightarrow>
               (case py_getitem d ''id'' of
                  Inl e \<Rightarrow> Inl e
                | Inr i \<Rightarrow>
                    (case py_getitem d ''unread'' of
                       Inl e \<Rightarrow> Inl e
                     | Inr u \<Rightarrow> Inr \<lparr>notification_type = ty, notification_data = d,
                                     notification_id = i, notification_unread = u\<rparr>))))"

definition mark :: "connection \<Rightarrow> notification \<Rightarrow> bool \<Rightarrow> (notification, unit) outcome" where
  "mark conn self unread =
     (case py_getitem (notification_data self) ''id'' of
        Inl e \<Rightarrow> \<lparr>after = self, sent = [], result = Inl e\<rparr>
      | Inr i \<Rightarrow>
          (let rq = \<lparr>verb = PUT, path = Format ''notifications/{0}'' [i]\<rparr>;
               request = conn rq
           in case py_setitem (notification_data self) ''unread'' (JBool unread) of
                Inl e \<Rightarrow> \<lparr>after = self, sent = [rq], result = Inl e\<rparr>
              | Inr d \<Rightarrow> \<lparr>after = self\<lparr>notification_data := d\<rparr>, sent = [rq], result = Inr ()\<rparr>))"

text \<open>
  \<^verbatim>\<open>_who_regexp\<close> is \<^verbatim>\<open>/people/([0-9a-f]+)["\']{1} class=["\']{1}hovercardable\<close> and
  \<^verbatim>\<open>_aboutid_regexp\<close> is \<^verbatim>\<open>/posts/[0-9a-f]+\<close>.
\<close>

definition who_regexp :: "tok list" where
  "who_regexp = [Plain (Lit ''/people/''), Group (PlusOf hexdigit), Plain (OneOf quote),
                 Plain (Lit '' class=''), Plain (OneOf quote), Plain (Lit ''hovercardable'')]"

definition aboutid_regexp :: "tok list" where
  "aboutid_regexp = [Plain (Lit ''/posts/''), Plain (PlusOf hexdigit)]"

text \<open>A pattern applied to a value that is not a string raises \<^verbatim>\<open>TypeError\<close>.\<close>

definition who :: "notification \<Rightarrow> error + string list" where
  "who self =
     (case py_getitem (notification_data self) ''note_html'' of
        Inl e \<Rightarrow> Inl e
      | Inr h \<Rightarrow> (case h of JStr html \<Rightarrow> Inr (findall who_regexp html) | _ \<Rightarrow> Inl TypeError))"

text \<open>
  \<^verbatim>\<open>about\<close> returns a Python value: the int made from the text after the seven characters
  \<^verbatim>\<open>/posts/\<close> of the first match, or the list of strings that \<^verbatim>\<open>who()\<close> returns.
\<close>

definition about :: "notification \<Rightarrow> error + json" where
  "about self =
     (case py_getitem (notification_data self) ''note_html'' of
        Inl e \<Rightarrow> Inl e
      | Inr h \<Rightarrow>
          (case h of
             JStr html \<Rightarrow>
               (case search aboutid_regexp html of
                  None \<Rightarrow> (case who self of Inl e \<Rightarrow> Inl e | Inr gs \<Rightarrow> Inr (JList (map JStr gs)))
                | Some (m, gs, r) \<Rightarrow>
                    (case py_int (drop 7 m) of Inl e \<Rightarrow> Inl e | Inr n \<Rightarrow> Inr (JInt n)))
           | _ \<Rightarrow> Inl TypeError))"

section \<open>Conversation\<close>

record conversation =
  conversation_id :: json
  conversation_data :: json

definition conversation_delete :: "connection \<Rightarrow> conversation \<Rightarrow> (conversation, unit) outcome" where
  "conversation_delete conn self =
     (let rq = \<lparr>verb = DELETE, path = Format ''conversations/{0}/visibility/'' [conversation_id self]\<rparr>;
          request = conn rq
      in if status_code request \<noteq> 404
         then \<lparr>after = self, sent = [rq],
               result = Inl (ConversationError
                  (Format ''{0}: Conversation could not be deleted.'' [JInt (status_code request)]))\<rparr>
         else \<lparr>after = self, sent = [rq], result = Inr ()\<rparr>)"

section \<open>Comment and Comments\<close>

record comment =
  comment_data :: json
  comment_id :: json
  comment_guid :: json

definition Comment :: "json \<Rightarrow> error + comment" where
  "Comment data =
     (case py_getitem data ''id'' of
        Inl e \<Rightarrow> Inl e
      | Inr i \<Rightarrow>
          (case py_getitem data ''guid'' of
             Inl e \<Rightarrow> Inl e
           | Inr g \<Rightarrow> Inr \<lparr>comment_data = data, comment_id = i, comment_guid = g\<rparr>))"

text \<open>The backing store \<^verbatim>\<open>_comments\<close> is \<^verbatim>\<open>None\<close> or a list of comments.\<close>

record comments =
  comments_store :: "comment list option"

text \<open>\<^verbatim>\<open>if self._comments:\<close> holds for a non-empty list only.\<close>

definition store_truthy :: "comments \<Rightarrow> bool" where
  "store_truthy self = (case comments_store self of None \<Rightarrow> False | Some cs \<Rightarrow> cs \<noteq> [])"

text \<open>\<^verbatim>\<open>__iter__\<close>: the comments yielded, in order.\<close>

definition comments_iter :: "comments \<Rightarrow> comment list" where
  "comments_iter self = (if store_truthy self then the (comments_store self) else [])"

text \<open>\<^verbatim>\<open>__len__\<close>: the method's return value, \<open>None\<close> when it falls off its end.\<close>

definition comments_len :: "comments \<Rightarrow> nat option" where
  "comments_len self = (if store_truthy self then Some (length (the (comments_store self))) else None)"

text \<open>The builtin \<^verbatim>\<open>len()\<close> rejects a \<^verbatim>\<open>__len__\<close> that returns \<^verbatim>\<open>None\<close>.\<close>

definition py_len :: "comments \<Rightarrow> error + nat" where
  "py_len self = (case comments_len self of None \<Rightarrow> Inl TypeError | Some n \<Rightarrow> Inr n)"

definition comments_bool :: "comments \<Rightarrow> bool" where
  "comments_bool self = (if store_truthy self then True else False)"

definition comments_set :: "comments \<Rightarrow> comment list \<Rightarrow> comments" where
  "comments_set self cs = (if cs \<noteq> [] then self\<lparr>comments_store := Some cs\<rparr> else self)"

definition set_json :: "comments \<Rightarrow> json \<Rightarrow> (comments, unit) outcome" where
  "set_json self json_comments =
     (if py_truthy json_comments
      then (case py_iter json_comments of
              Inl e \<Rightarrow> \<lparr>after = self, sent = [], result = Inl e\<rparr>
            | Inr items \<Rightarrow>
                (case map_err Comment items of
                   Inl e \<Rightarrow> \<lparr>after = self, sent = [], result = Inl e\<rparr>
                 | Inr cs \<Rightarrow> \<lparr>after = self\<lparr>comments_store := Some cs\<rparr>, sent = [], result = Inr ()\<rparr>))
      else \<lparr>after = self, sent = [], result = Inr ()\<rparr>)"

section \<open>Post\<close>

record post =
  post_id :: json
  post_guid :: json
  post_data :: json
  post_comments :: comments

text \<open>
  \<^verbatim>\<open>_fetchdata\<close>: the local \<^verbatim>\<open>id\<close> is assigned from \<^verbatim>\<open>self.id\<close> and then, by a second
  independent \<^verbatim>\<open>if\<close>, from \<^verbatim>\<open>self.guid\<close>; it is unbound when both are falsy.
\<close>

definition fetchdata :: "connection \<Rightarrow> post \<Rightarrow> (post, json) outcome" where
  "fetchdata conn self =
     (let id0 = (if py_truthy (post_id self) then Some (post_id self) else None);
          id1 = (if py_truthy (post_guid self) then Some (post_guid self) else id0)
      in case id1 of
           None \<Rightarrow> \<lparr>after = self, sent = [], result = Inl UnboundLocalError\<rparr>
         | Some id' \<Rightarrow>
             (let rq = \<lparr>verb = GET, path = Format ''posts/{0}.json'' [id']\<rparr>;
                  request = conn rq
              in if status_code request \<noteq> 200
                 then \<lparr>after = self, sent = [rq],
                       result = Inl (PostError (Format ''{0}: could not fetch data for post: {1}''
                                                  [JInt (status_code request), id']))\<rparr>
                 else if response_bool request
                 then (case response_json request of
                         Inl e \<Rightarrow> \<lparr>after = self, sent = [rq], result = Inl e\<rparr>
                       | Inr j \<Rightarrow> \<lparr>after = self\<lparr>post_data := j\<rparr>, sent = [rq],
                                  result = py_getitem j ''guid''\<rparr>)
                 else \<lparr>after = self, sent = [rq], result = py_getitem (post_data self) ''guid''\<rparr>))"

definition fetchcomments :: "connection \<Rightarrow> post \<Rightarrow> (post, unit) outcome" where
  "fetchcomments conn self =
     (let raise0 = (\<lambda>e. \<lparr>after = self, sent = [], result = Inl e\<rparr>)
      in case py_getitem (post_data self) ''id'' of
           Inl e \<Rightarrow> raise0 e
         | Inr id' \<Rightarrow>
             (case py_getitem (post_data self) ''interactions'' of
                Inl e \<Rightarrow> raise0 e
              | Inr interactions \<Rightarrow>
                  (case py_getitem interactions ''comments_count'' of
                     Inl e \<Rightarrow> raise0 e
                   | Inr cnt \<Rightarrow>
                       if py_truthy cnt
                       then
                         (let rq = \<lparr>verb = GET, path = Format ''posts/{0}/comments.json'' [id']\<rparr>;
                              request = conn rq;
                              raise = (\<lambda>e. \<lparr>after = self, sent = [rq], result = Inl e\<rparr>)
                          in if status_code request \<noteq> 200
                             then raise (PostError (Format ''{0}: could not fetch comments for post: {1}''
                                                     [JInt (status_code request), id']))
                             else
                               (case response_json request of
                                  Inl e \<Rightarrow> raise e
                                | Inr j \<Rightarrow>
                                    (case py_iter j of
                                       Inl e \<Rightarrow> raise e
                                     | Inr items \<Rightarrow>
                                         (case map_err Comment items of
                                            Inl e \<Rightarrow> raise e
                                          | Inr cs \<Rightarrow>
                                              \<lparr>after = self\<lparr>post_comments := comments_set (post_comments self) cs\<rparr>,
                                               sent = [rq], result = Inr ()\<rparr>))))
                       else \<lparr>after = self, sent = [], result = Inr ()\<rparr>)))"

text \<open>
  \<^verbatim>\<open>like\<close>: the assignment \<^verbatim>\<open>self._data['interactions']['likes'] = [likes_json]\<close> changes the
  nested dict in place, so the post's data is the old data with that one entry replaced.
\<close>

definition like :: "connection \<Rightarrow> post \<Rightarrow> (post, json) outcome" where
  "like conn self =
     (let rq = \<lparr>verb = POST, path = Format ''posts/{0}/likes'' [post_id self]\<rparr>;
          request = conn rq;
          raise = (\<lambda>e. \<lparr>after = self, sent = [rq], result = Inl e\<rparr>)
      in if status_code request \<noteq> 201
         then raise (PostError (Format ''{0}: Post could not be liked.'' [JInt (status_code request)]))
         else
           (case response_json request of
              Inl e \<Rightarrow> raise e
            | Inr likes_json \<Rightarrow>
                if py_truthy likes_json
                then
                  (case py_getitem (post_data self) ''interactions'' of
                     Inl e \<Rightarrow> raise e
                   | Inr interactions \<Rightarrow>
                       (case py_setitem interactions ''likes'' (JList [likes_json]) of
                          Inl e \<Rightarrow> raise e
                        | Inr interactions' \<Rightarrow>
                            (case py_setitem (post_data self) ''interactions'' interactions' of
                               Inl e \<Rightarrow> raise e
                             | Inr d \<Rightarrow> \<lparr>after = self\<lparr>post_data := d\<rparr>, sent = [rq],
                                        result = Inr likes_json\<rparr>)))
                else \<lparr>after = self, sent = [rq], result = Inr likes_json\<rparr>))"

section \<open>Vocabulary of the properties\<close>

text \<open>What an item of a pattern accepts: the texts it can consume.\<close>

fun atom_ok :: "atom \<Rightarrow> string \<Rightarrow> bool" where
  "atom_ok (Lit l) a = (a = l)"
| "atom_ok (OneOf cs) a = (\<exists>c \<in> set cs. a = [c])"
| "atom_ok (PlusOf cs) a = (a \<noteq> [] \<and> set a \<subseteq> set cs)"

text \<open>
  \<open>hovercard_ref g html\<close>: somewhere in \<open>html\<close> stands \<^verbatim>\<open>/people/\<close>, the non-empty hex text
  \<open>g\<close>, a quote, \<^verbatim>\<open> class=\<close>, a quote and \<^verbatim>\<open>hovercardable\<close>.
\<close>

definition hovercard_ref :: "string \<Rightarrow> string \<Rightarrow> bool" where
  "hovercard_ref g html \<longleftrightarrow>
     (\<exists>pre q1 q2 post. g \<noteq> [] \<and> set g \<subseteq> set hexdigit \<and> q1 \<in> set quote \<and> q2 \<in> set quote
        \<and> html = pre @ ''/people/'' @ g @ [q1] @ '' class='' @ [q2] @ ''hovercardable'' @ post)"

text \<open>
  In the words of the specification: \<open>g\<close> is a hex GUID in the href of an anchor tag, of the
  form \<^verbatim>\<open>/people/<hex>\<close>.
\<close>

definition spec_people_href :: "string \<Rightarrow> string \<Rightarrow> bool" where
  "spec_people_href g html \<longleftrightarrow>
     (\<exists>pre q post. g \<noteq> [] \<and> set g \<subseteq> set hexdigit \<and> q \<in> set quote
        \<and> html = pre @ ''<a href='' @ [q] @ ''/people/'' @ g @ [q] @ post)"

section \<open>Supporting lemmas\<close>

subsection \<open>Python values\<close>

lemma py_getitem_update_same: "py_getitem (JObj (AList.update k v kvs)) k = Inr v"
  by (simp add: update_conv')

lemma py_getitem_update_other: "k' \<noteq> k \<Longrightarrow> py_getitem (JObj (AList.update k v kvs)) k' = py_getitem (JObj kvs) k'"
  by (simp add: update_conv')

lemma py_getitem_InrD: "py_getitem d k = Inr v \<Longrightarrow> \<exists>kvs. d = JObj kvs \<and> map_of kvs k = Some v"
  by (cases d) (auto split: option.splits)

lemma decode_error_not_PostError: "decode_error f \<noteq> PostError m"
  by (cases f) simp_all

lemma py_getitem_InlD: "py_getitem d k = Inl e \<Longrightarrow> e = KeyError \<or> e = TypeError"
  by (cases d) (auto split: option.splits)

lemma py_setitem_InlD: "py_setitem d k v = Inl e \<Longrightarrow> e = TypeError"
  by (cases d) auto

lemma map_err_Comment_ok:
  assumes "\<forall>j \<in> set js. \<exists>i g. py_getitem j ''id'' = Inr i \<and> py_getitem j ''guid'' = Inr g"
  shows "\<exists>cs. map_err Comment js = Inr cs \<and> list_all2 (\<lambda>c j. Comment j = Inr c) cs js"
  using assms
proof (induction js)
  case Nil
  then show ?case by simp
next
  case (Cons j js)
  then obtain cs where cs: "map_err Comment js = Inr cs" "list_all2 (\<lambda>c j. Comment j = Inr c) cs js"
    by auto
  from Cons.prems obtain i g where "py_getitem j ''id'' = Inr i" "py_getitem j ''guid'' = Inr g"
    by auto
  then have "Comment j = Inr \<lparr>comment_data = j, comment_id = i, comment_guid = g\<rparr>"
    by (simp add: Comment_def)
  with cs show ?case by simp
qed

lemma Comment_data: "Comment j = Inr c \<Longrightarrow> comment_data c = j"
  by (auto simp add: Comment_def split: sum.splits)

lemma list_all2_Comment_data:
  "list_all2 (\<lambda>c j. Comment j = Inr c) cs js \<Longrightarrow> map comment_data cs = js"
  by (induction cs js rule: list_all2_induct) (auto simp add: Comment_data)

lemma Notification_has_id:
  "Notification data = Inr n \<Longrightarrow>
     py_getitem (notification_data n) ''id'' = Inr (notification_id n)
     \<and> py_getitem (notification_data n) ''unread'' = Inr (notification_unread n)"
  by (auto simp add: Notification_def split: sum.splits)

lemma fetchcomments_sent_cases:
  "sent (fetchcomments conn self) = []
   \<or> (\<exists>i. py_getitem (post_data self) ''id'' = Inr i
         \<and> sent (fetchcomments conn self) = [\<lparr>verb = GET, path = Format ''posts/{0}/comments.json'' [i]\<rparr>])"
  by (auto simp add: fetchcomments_def Let_def split: sum.splits)

lemma about_without_post_reference:
  assumes "py_getitem (notification_data self) ''note_html'' = Inr (JStr html)"
    and "search aboutid_regexp html = None"
  shows "about self = Inr (JList (map JStr (findall who_regexp html)))
       \<and> who self = Inr (findall who_regexp html)"
  using assms by (simp add: about_def who_def)

text \<open>
  \<open>mark\<close> on a notification whose data has an \<^verbatim>\<open>id\<close>: one PUT, a normal return and the
  \<^verbatim>\<open>unread\<close> entry of the data set to the argument, for every answer of the pod; the
  attribute \<^verbatim>\<open>unread\<close> is not written.
\<close>

lemma mark_sets_unread:
  assumes "py_getitem (notification_data self) ''id'' = Inr i"
  shows "sent (mark conn self unread) = [\<lparr>verb = PUT, path = Format ''notifications/{0}'' [i]\<rparr>]
       \<and> result (mark conn self unread) = Inr ()
       \<and> py_getitem (notification_data (after (mark conn self unread))) ''unread'' = Inr (JBool unread)
       \<and> (\<forall>k. k \<noteq> ''unread'' \<longrightarrow>
             py_getitem (notification_data (after (mark conn self unread))) k
               = py_getitem (notification_data self) k)
       \<and> after (mark conn self unread) = after (mark conn' self unread)
       \<and> notification_unread (after (mark conn self unread)) = notification_unread self"
proof -
  from assms obtain kvs where d: "notification_data self = JObj kvs"
    using py_getitem_InrD by blast
  show ?thesis
    using assms d by (simp add: mark_def Let_def update_conv')
qed

text \<open>
  \<open>set_json\<close> with a non-empty list of N items, each a dict with \<^verbatim>\<open>id\<close> and \<^verbatim>\<open>guid\<close>: the
  container has length N and iterates over the comments made from the items, in their order.
\<close>

lemma set_json_nonempty:
  assumes "js \<noteq> []"
    and "\<forall>j \<in> set js. \<exists>i g. py_getitem j ''id'' = Inr i \<and> py_getitem j ''guid'' = Inr g"
  shows "result (set_json self (JList js)) = Inr ()
       \<and> comments_len (after (set_json self (JList js))) = Some (length js)
       \<and> py_len (after (set_json self (JList js))) = Inr (length js)
       \<and> list_all2 (\<lambda>c j. Comment j = Inr c) (comments_iter (after (set_json self (JList js)))) js
       \<and> map comment_data (comments_iter (after (set_json self (JList js)))) = js"
proof -
  from map_err_Comment_ok [OF assms(2)] obtain cs
    where cs: "map_err Comment js = Inr cs" "list_all2 (\<lambda>c j. Comment j = Inr c) cs js"
    by blast
  from cs(2) have len: "length cs = length js"
    by (rule list_all2_lengthD)
  with assms(1) have ne: "cs \<noteq> []"
    by auto
  have data: "map comment_data cs = js"
    using cs(2) by (rule list_all2_Comment_data)
  show ?thesis
    using assms(1) cs len ne data
    by (simp add: set_json_def comments_len_def py_len_def comments_iter_def store_truthy_def)
qed

subsection \<open>Matches of the patterns\<close>

lemma takeWhile_length_ge:
  "set (take k s) \<subseteq> A \<Longrightarrow> k \<le> length s \<Longrightarrow> k \<le> length (takeWhile (\<lambda>c. c \<in> A) s)"
proof (induction s arbitrary: k)
  case Nil
  then show ?case by simp
next
  case (Cons c s)
  then show ?case by (cases k) auto
qed

lemma take_takeWhile_subset:
  "k \<le> length (takeWhile P s) \<Longrightarrow> \<forall>c \<in> set (take k s). P c"
proof -
  assume k: "k \<le> length (takeWhile P s)"
  have "take k s = take k (takeWhile P s)"
    by (metis k takeWhile_dropWhile_id take_append diff_is_0_eq take_0 append_Nil2)
  then show ?thesis
    by (metis in_set_takeD set_takeWhileD)
qed

lemma atom_matches_iff:
  "(a, r) \<in> set (atom_matches at s) \<longleftrightarrow> s = a @ r \<and> atom_ok at a"
proof (cases at)
  case (Lit l)
  have "take (length l) s = l \<Longrightarrow> s = l @ drop (length l) s"
    by (metis append_take_drop_id)
  with Lit show ?thesis
    by (auto simp add: append_eq_conv_conj)
next
  case (OneOf cs)
  then show ?thesis
    by (cases s) auto
next
  case (PlusOf cs)
  show ?thesis
  proof
    assume "(a, r) \<in> set (atom_matches at s)"
    then obtain k where k: "1 \<le> k" "k \<le> length (takeWhile (\<lambda>c. c \<in> set cs) s)"
      "a = take k s" "r = drop k s"
      using PlusOf by auto
    have "k \<le> length s"
      using k(2) length_takeWhile_le le_trans by blast
    with k(1,3) have "a \<noteq> []" by auto
    moreover have "set a \<subseteq> set cs"
      using take_takeWhile_subset [OF k(2)] k(3) by auto
    ultimately show "s = a @ r \<and> atom_ok at a"
      using k PlusOf by simp
  next
    assume h: "s = a @ r \<and> atom_ok at a"
    then have a: "a \<noteq> []" "set a \<subseteq> set cs" "s = a @ r"
      using PlusOf by auto
    have "length a \<le> length (takeWhile (\<lambda>c. c \<in> set cs) s)"
      by (rule takeWhile_length_ge) (use a in auto)
    moreover have "1 \<le> length a"
      using a(1) by (cases a) auto
    ultimately have "length a \<in> set (rev [1 ..< Suc (length (takeWhile (\<lambda>c. c \<in> set cs) s))])"
      by auto
    then have "(take (length a) s, drop (length a) s) \<in> set (atom_matches at s)"
      unfolding PlusOf atom_matches.simps set_map by (rule imageI)
    then show "(a, r) \<in> set (atom_matches at s)"
      using a(3) by simp
  qed
qed

lemma seq_matches_Cons_iff:
  "(m, gs, r) \<in> set (seq_matches (t # ts) s) \<longleftrightarrow>
     (\<exists>a s' m' gs'. s = a @ s' \<and> atom_ok (atom_of t) a
        \<and> (m', gs', r) \<in> set (seq_matches ts s')
        \<and> m = a @ m' \<and> gs = (case t of Group _ \<Rightarrow> a # gs' | Plain _ \<Rightarrow> gs'))"
proof -
  have "(m, gs, r) \<in> set (seq_matches (t # ts) s) \<longleftrightarrow>
     (\<exists>a s' m' gs'. (a, s') \<in> set (atom_matches (atom_of t) s)
        \<and> (m', gs', r) \<in> set (seq_matches ts s')
        \<and> m = a @ m' \<and> gs = (case t of Group _ \<Rightarrow> a # gs' | Plain _ \<Rightarrow> gs'))"
    by force
  then show ?thesis
    unfolding atom_matches_iff by simp
qed

lemma seq_matches_LitI:
  "(m', gs, r) \<in> set (seq_matches ts s') \<Longrightarrow>
   (l @ m', gs, r) \<in> set (seq_matches (Plain (Lit l) # ts) (l @ s'))"
  unfolding seq_matches_Cons_iff by (intro exI [of _ l] exI [of _ s'] exI [of _ m'] exI [of _ gs]) simp

lemma seq_matches_OneOfI:
  "c \<in> set cs \<Longrightarrow> (m', gs, r) \<in> set (seq_matches ts s') \<Longrightarrow>
   (c # m', gs, r) \<in> set (seq_matches (Plain (OneOf cs) # ts) (c # s'))"
  unfolding seq_matches_Cons_iff by (intro exI [of _ "[c]"] exI [of _ s'] exI [of _ m'] exI [of _ gs]) simp

lemma seq_matches_PlusOfI:
  "g \<noteq> [] \<Longrightarrow> set g \<subseteq> set cs \<Longrightarrow> (m', gs, r) \<in> set (seq_matches ts s') \<Longrightarrow>
   (g @ m', gs, r) \<in> set (seq_matches (Plain (PlusOf cs) # ts) (g @ s'))"
  unfolding seq_matches_Cons_iff by (intro exI [of _ g] exI [of _ s'] exI [of _ m'] exI [of _ gs]) simp

lemma seq_matches_Group_PlusOfI:
  "g \<noteq> [] \<Longrightarrow> set g \<subseteq> set cs \<Longrightarrow> (m', gs, r) \<in> set (seq_matches ts s') \<Longrightarrow>
   (g @ m', g # gs, r) \<in> set (seq_matches (Group (PlusOf cs) # ts) (g @ s'))"
  unfolding seq_matches_Cons_iff by (intro exI [of _ g] exI [of _ s'] exI [of _ m'] exI [of _ gs]) simp

lemma seq_matches_NilI: "([], [], r) \<in> set (seq_matches [] r)"
  by simp

lemma seq_matches_LitD:
  "(m, gs, r) \<in> set (seq_matches (Plain (Lit l) # ts) s) \<Longrightarrow>
     \<exists>s' m'. s = l @ s' \<and> m = l @ m' \<and> (m', gs, r) \<in> set (seq_matches ts s')"
  unfolding seq_matches_Cons_iff by auto

lemma seq_matches_OneOfD:
  "(m, gs, r) \<in> set (seq_matches (Plain (OneOf cs) # ts) s) \<Longrightarrow>
     \<exists>c s' m'. c \<in> set cs \<and> s = c # s' \<and> m = c # m' \<and> (m', gs, r) \<in> set (seq_matches ts s')"
  unfolding seq_matches_Cons_iff by auto

lemma seq_matches_PlusOfD:
  "(m, gs, r) \<in> set (seq_matches (Plain (PlusOf cs) # ts) s) \<Longrightarrow>
     \<exists>g s' m'. g \<noteq> [] \<and> set g \<subseteq> set cs \<and> s = g @ s' \<and> m = g @ m'
        \<and> (m', gs, r) \<in> set (seq_matches ts s')"
  unfolding seq_matches_Cons_iff by auto

lemma seq_matches_Group_PlusOfD:
  "(m, gs, r) \<in> set (seq_matches (Group (PlusOf cs) # ts) s) \<Longrightarrow>
     \<exists>g s' m' gs'. g \<noteq> [] \<and> set g \<subseteq> set cs \<and> s = g @ s' \<and> m = g @ m' \<and> gs = g # gs'
        \<and> (m', gs', r) \<in> set (seq_matches ts s')"
  unfolding seq_matches_Cons_iff by auto

lemma who_matches_iff:
  "(m, gs, r) \<in> set (seq_matches who_regexp s) \<longleftrightarrow>
     (\<exists>g q1 q2. g \<noteq> [] \<and> set g \<subseteq> set hexdigit \<and> q1 \<in> set quote \<and> q2 \<in> set quote
        \<and> m = ''/people/'' @ g @ [q1] @ '' class='' @ [q2] @ ''hovercardable''
        \<and> s = m @ r \<and> gs = [g])"
proof
  assume "(m, gs, r) \<in> set (seq_matches who_regexp s)"
  then obtain s1 m1 where 1: "s = ''/people/'' @ s1" "m = ''/people/'' @ m1"
      "(m1, gs, r) \<in> set (seq_matches [Group (PlusOf hexdigit), Plain (OneOf quote),
         Plain (Lit '' class=''), Plain (OneOf quote), Plain (Lit ''hovercardable'')] s1)"
    unfolding who_regexp_def by (blast dest: seq_matches_LitD)
  from 1(3) obtain g s2 m2 gs2 where 2: "g \<noteq> []" "set g \<subseteq> set hexdigit" "s1 = g @ s2" "m1 = g @ m2"
      "gs = g # gs2"
      "(m2, gs2, r) \<in> set (seq_matches [Plain (OneOf quote),
         Plain (Lit '' class=''), Plain (OneOf quote), Plain (Lit ''hovercardable'')] s2)"
    by (blast dest: seq_matches_Group_PlusOfD)
  from 2(6) obtain q1 s3 m3 where 3: "q1 \<in> set quote" "s2 = q1 # s3" "m2 = q1 # m3"
      "(m3, gs2, r) \<in> set (seq_matches [Plain (Lit '' class=''), Plain (OneOf quote),
         Plain (Lit ''hovercardable'')] s3)"
    by (blast dest: seq_matches_OneOfD)
  from 3(4) obtain s4 m4 where 4: "s3 = '' class='' @ s4" "m3 = '' class='' @ m4"
      "(m4, gs2, r) \<in> set (seq_matches [Plain (OneOf quote), Plain (Lit ''hovercardable'')] s4)"
    by (blast dest: seq_matches_LitD)
  from 4(3) obtain q2 s5 m5 where 5: "q2 \<in> set quote" "s4 = q2 # s5" "m4 = q2 # m5"
      "(m5, gs2, r) \<in> set (seq_matches [Plain (Lit ''hovercardable'')] s5)"
    by (blast dest: seq_matches_OneOfD)
  from 5(4) obtain s6 m6 where 6: "s5 = ''hovercardable'' @ s6" "m5 = ''hovercardable'' @ m6"
      "(m6, gs2, r) \<in> set (seq_matches [] s6)"
    by (blast dest: seq_matches_LitD)
  from 6(3) have 7: "m6 = []" "gs2 = []" "s6 = r"
    by simp_all
  show "\<exists>g q1 q2. g \<noteq> [] \<and> set g \<subseteq> set hexdigit \<and> q1 \<in> set quote \<and> q2 \<in> set quote
        \<and> m = ''/people/'' @ g @ [q1] @ '' class='' @ [q2] @ ''hovercardable''
        \<and> s = m @ r \<and> gs = [g]"
    by (intro exI [of _ g] exI [of _ q1] exI [of _ q2])
       (simp add: 1(1,2) 2(1,2,3,4,5) 3(1,2,3) 4(1,2) 5(1,2,3) 6(1,2) 7)
next
  assume "\<exists>g q1 q2. g \<noteq> [] \<and> set g \<subseteq> set hexdigit \<and> q1 \<in> set quote \<and> q2 \<in> set quote
        \<and> m = ''/people/'' @ g @ [q1] @ '' class='' @ [q2] @ ''hovercardable''
        \<and> s = m @ r \<and> gs = [g]"
  then obtain g q1 q2 where h: "g \<noteq> []" "set g \<subseteq> set hexdigit" "q1 \<in> set quote" "q2 \<in> set quote"
      "m = ''/people/'' @ g @ [q1] @ '' class='' @ [q2] @ ''hovercardable''" "s = m @ r" "gs = [g]"
    by blast
  have "(''/people/'' @ (g @ (q1 # ('' class='' @ (q2 # (''hovercardable'' @ []))))), [g], r)
          \<in> set (seq_matches who_regexp
                 (''/people/'' @ (g @ (q1 # ('' class='' @ (q2 # (''hovercardable'' @ r)))))))"
    unfolding who_regexp_def
    by (intro seq_matches_LitI seq_matches_Group_PlusOfI seq_matches_OneOfI seq_matches_NilI h(1,2,3,4))
  then show "(m, gs, r) \<in> set (seq_matches who_regexp s)"
    by (simp add: h(5,6,7))
qed

lemma run_unique:
  assumes "set g \<subseteq> H" "set g' \<subseteq> H" "q \<notin> H" "q' \<notin> H" "g @ q # t = g' @ q' # t'"
  shows "g = g' \<and> q = q' \<and> t = t'"
proof -
  have "takeWhile (\<lambda>c. c \<in> H) (g @ q # t) = g"
    using assms(1,3) by (simp add: takeWhile_tail subset_iff)
  moreover have "takeWhile (\<lambda>c. c \<in> H) (g' @ q' # t') = g'"
    using assms(2,4) by (simp add: takeWhile_tail subset_iff)
  ultimately have "g = g'"
    using assms(5) by simp
  with assms(5) show ?thesis by simp
qed

lemma quote_not_hex: "q \<in> set quote \<Longrightarrow> q \<notin> set hexdigit"
  by (auto simp add: quote_def hexdigit_def)

lemma who_matchesD:
  assumes "(m, gs, r) \<in> set (seq_matches who_regexp s)"
  obtains g q1 q2 where "g \<noteq> []" "set g \<subseteq> set hexdigit" "q1 \<in> set quote" "q2 \<in> set quote"
    "m = ''/people/'' @ g @ [q1] @ '' class='' @ [q2] @ ''hovercardable''" "s = m @ r" "gs = [g]"
  using assms [unfolded who_matches_iff] by (elim exE conjE) (rule that)

lemma who_match_unique:
  assumes "x \<in> set (seq_matches who_regexp s)" "y \<in> set (seq_matches who_regexp s)"
  shows "x = y"
proof -
  obtain m gs r where x: "x = (m, gs, r)" by (cases x)
  obtain m' gs' r' where y: "y = (m', gs', r')" by (cases y)
  from assms(1) [unfolded x] obtain g q1 q2 where
    1: "g \<noteq> []" "set g \<subseteq> set hexdigit" "q1 \<in> set quote" "q2 \<in> set quote"
       "m = ''/people/'' @ g @ [q1] @ '' class='' @ [q2] @ ''hovercardable''" "s = m @ r" "gs = [g]"
    by (rule who_matchesD)
  from assms(2) [unfolded y] obtain g' q1' q2' where
    2: "g' \<noteq> []" "set g' \<subseteq> set hexdigit" "q1' \<in> set quote" "q2' \<in> set quote"
       "m' = ''/people/'' @ g' @ [q1'] @ '' class='' @ [q2'] @ ''hovercardable''" "s = m' @ r'" "gs' = [g']"
    by (rule who_matchesD)
  have "''/people/'' @ (g @ q1 # ('' class='' @ [q2] @ ''hovercardable'' @ r))
      = ''/people/'' @ (g' @ q1' # ('' class='' @ [q2'] @ ''hovercardable'' @ r'))"
    using 1(6) 2(6) unfolding 1(5) 2(5) by simp
  then have e: "g @ q1 # ('' class='' @ [q2] @ ''hovercardable'' @ r)
      = g' @ q1' # ('' class='' @ [q2'] @ ''hovercardable'' @ r')"
    by (simp only: same_append_eq)
  from run_unique [OF 1(2) 2(2) quote_not_hex [OF 1(3)] quote_not_hex [OF 2(3)] e]
  have u: "g = g'" "q1 = q1'" "'' class='' @ [q2] @ ''hovercardable'' @ r = '' class='' @ [q2'] @ ''hovercardable'' @ r'"
    by simp_all
  from u(3) have v: "q2 = q2'" "r = r'"
    by simp_all
  show ?thesis
    unfolding x y 1(5) 2(5) 1(7) 2(7) u(1,2) v by (rule refl)
qed

lemma re_match_who_iff:
  "re_match who_regexp s = Some x \<longleftrightarrow> x \<in> set (seq_matches who_regexp s)"
proof
  assume "re_match who_regexp s = Some x"
  then show "x \<in> set (seq_matches who_regexp s)"
    by (auto simp add: re_match_def split: list.splits)
next
  assume x: "x \<in> set (seq_matches who_regexp s)"
  then obtain y ys where ys: "seq_matches who_regexp s = y # ys"
    by (cases "seq_matches who_regexp s") auto
  then have "y \<in> set (seq_matches who_regexp s)" by simp
  then have "y = x" using x by (rule who_match_unique)
  with ys show "re_match who_regexp s = Some x"
    by (simp add: re_match_def)
qed

lemma re_match_who_None_iff:
  "re_match who_regexp s = None \<longleftrightarrow> seq_matches who_regexp s = []"
  by (auto simp add: re_match_def split: list.splits)

lemma re_match_who_Some:
  "re_match who_regexp s = Some (m, gs, r) \<longleftrightarrow>
     (\<exists>g q1 q2. g \<noteq> [] \<and> set g \<subseteq> set hexdigit \<and> q1 \<in> set quote \<and> q2 \<in> set quote
        \<and> m = ''/people/'' @ g @ [q1] @ '' class='' @ [q2] @ ''hovercardable''
        \<and> s = m @ r \<and> gs = [g])"
  unfolding re_match_who_iff who_matches_iff ..

lemma findall_who_None:
  "re_match who_regexp s = None \<Longrightarrow>
   findall who_regexp s = (case s of [] \<Rightarrow> [] | c # t \<Rightarrow> findall who_regexp t)"
  by (subst findall.simps) simp

lemma findall_who_Some:
  assumes "re_match who_regexp s = Some (m, gs, r)"
  shows "length r < length s \<and> findall who_regexp s = hd gs # findall who_regexp r"
proof -
  from assms have "(m, gs, r) \<in> set (seq_matches who_regexp s)"
    by (simp only: re_match_who_iff)
  then obtain g where "gs = [g]" "s = m @ r" "m \<noteq> []"
    by (rule who_matchesD) simp
  then show ?thesis
    using assms by (subst findall.simps) (simp add: findall_item_def)
qed

lemma hovercard_ref_append: "hovercard_ref g t \<Longrightarrow> hovercard_ref g (p @ t)"
proof -
  assume "hovercard_ref g t"
  then obtain pre q1 q2 post where h: "g \<noteq> []" "set g \<subseteq> set hexdigit" "q1 \<in> set quote" "q2 \<in> set quote"
      "t = pre @ ''/people/'' @ g @ [q1] @ '' class='' @ [q2] @ ''hovercardable'' @ post"
    unfolding hovercard_ref_def by blast
  have "p @ t = (p @ pre) @ ''/people/'' @ g @ [q1] @ '' class='' @ [q2] @ ''hovercardable'' @ post"
    unfolding h(5) by (simp only: append_assoc)
  with h(1-4) show ?thesis
    unfolding hovercard_ref_def by blast
qed

lemma hovercard_ref_match:
  assumes "(m, gs, r) \<in> set (seq_matches who_regexp s)"
  shows "hovercard_ref (hd gs) s"
proof -
  from assms obtain g q1 q2 where h: "g \<noteq> []" "set g \<subseteq> set hexdigit" "q1 \<in> set quote" "q2 \<in> set quote"
    "m = ''/people/'' @ g @ [q1] @ '' class='' @ [q2] @ ''hovercardable''" "s = m @ r" "gs = [g]"
    by (rule who_matchesD)
  have "s = [] @ ''/people/'' @ g @ [q1] @ '' class='' @ [q2] @ ''hovercardable'' @ r"
    unfolding h(6) h(5) by simp
  with h(1-4) have "hovercard_ref g s"
    unfolding hovercard_ref_def by blast
  then show ?thesis by (simp add: h(7))
qed

lemma findall_who_sound:
  "g \<in> set (findall who_regexp s) \<Longrightarrow> hovercard_ref g s"
proof (induction "length s" arbitrary: s rule: less_induct)
  case less
  show ?case
  proof (cases "re_match who_regexp s")
    case None
    show ?thesis
    proof (cases s)
      case Nil
      with None less.prems show ?thesis
        by (simp add: findall_who_None)
    next
      case (Cons c t)
      with None less.prems have "g \<in> set (findall who_regexp t)"
        by (simp add: findall_who_None)
      then have "hovercard_ref g t"
        using less.hyps [of t] Cons by simp
      then have "hovercard_ref g ([c] @ t)"
        by (rule hovercard_ref_append)
      then show ?thesis using Cons by simp
    qed
  next
    case (Some x)
    obtain m gs r where x: "x = (m, gs, r)" by (cases x)
    from Some x have mt: "re_match who_regexp s = Some (m, gs, r)" by simp
    then have mem: "(m, gs, r) \<in> set (seq_matches who_regexp s)"
      by (simp only: re_match_who_iff)
    from findall_who_Some [OF mt]
    have len: "length r < length s" and fa: "findall who_regexp s = hd gs # findall who_regexp r"
      by simp_all
    from mem have sr: "s = m @ r"
      by (rule who_matchesD)
    from less.prems fa have "g = hd gs \<or> g \<in> set (findall who_regexp r)"
      by simp
    then show ?thesis
    proof
      assume "g = hd gs"
      then show ?thesis using hovercard_ref_match [OF mem] by simp
    next
      assume "g \<in> set (findall who_regexp r)"
      then have "hovercard_ref g r"
        using less.hyps [OF len] by simp
      then show ?thesis
        unfolding sr by (rule hovercard_ref_append)
    qed
  qed
qed

lemma slash_suffix:
  assumes "pre @ us = ''/people/'' @ Z" "pre \<noteq> []" "us \<noteq> []" "hd us = CHR ''/''" "CHR ''/'' \<notin> set Z"
  shows "us = CHR ''/'' # Z"
proof -
  have hd_in: "hd us \<in> set us"
    using assms(3) by simp
  show ?thesis
    using assms hd_in
    by (auto simp add: append_eq_Cons_conv Cons_eq_append_conv)
qed

lemma slash_not_in_tail:
  assumes "set g \<subseteq> set hexdigit" "q1 \<in> set quote" "q2 \<in> set quote"
  shows "CHR ''/'' \<notin> set (g @ [q1] @ '' class='' @ [q2] @ ''hovercardable'')"
  using assms by (auto simp add: hexdigit_def quote_def)


lemma no_overlap:
  assumes mem: "(m, gs, r) \<in> set (seq_matches who_regexp s)"
    and g: "g \<noteq> []" "set g \<subseteq> set hexdigit" and q: "q1 \<in> set quote" "q2 \<in> set quote"
    and occ: "s = pre @ ''/people/'' @ g @ [q1] @ '' class='' @ [q2] @ ''hovercardable'' @ post"
  shows "gs = [g] \<or> (\<exists>pre'. r = pre' @ ''/people/'' @ g @ [q1] @ '' class='' @ [q2] @ ''hovercardable'' @ post)"
proof -
  define X where "X = ''/people/'' @ g @ [q1] @ '' class='' @ [q2] @ ''hovercardable'' @ post"
  from mem obtain g0 p1 p2 where h: "g0 \<noteq> []" "set g0 \<subseteq> set hexdigit" "p1 \<in> set quote" "p2 \<in> set quote"
    "m = ''/people/'' @ g0 @ [p1] @ '' class='' @ [p2] @ ''hovercardable''" "s = m @ r" "gs = [g0]"
    by (rule who_matchesD)
  define Z where "Z = g0 @ [p1] @ '' class='' @ [p2] @ ''hovercardable''"
  have mZ: "m = ''/people/'' @ Z"
    unfolding Z_def h(5) by simp
  have "pre @ X = m @ r"
    using occ h(6) unfolding X_def by simp
  then obtain us where "(pre = m @ us \<and> us @ X = r) \<or> (pre @ us = m \<and> X = us @ r)"
    unfolding append_eq_append_conv2 by blast
  then consider (A) "r = us @ X" | (B) "pre @ us = m" "X = us @ r"
    by blast
  then show ?thesis
  proof cases
    case A
    then show ?thesis unfolding X_def by blast
  next
    case B
    show ?thesis
    proof (cases "us = []")
      case True
      with B(2) have "r = [] @ X" by simp
      then show ?thesis unfolding X_def by blast
    next
      case us: False
      show ?thesis
      proof (cases "pre = []")
        case True
        have "(''/people/'' @ g @ [q1] @ '' class='' @ [q2] @ ''hovercardable'', [g], post)
                \<in> set (seq_matches who_regexp s)"
          unfolding who_matches_iff
          by (intro exI [of _ g] exI [of _ q1] exI [of _ q2]) (simp add: g q occ True)
        from who_match_unique [OF mem this] show ?thesis by simp
      next
        case pre: False
        have "hd us = hd X"
          using B(2) us by simp
        then have hd: "hd us = CHR ''/''"
          unfolding X_def by simp
        have "CHR ''/'' \<notin> set Z"
          unfolding Z_def using h(2,3,4) by (rule slash_not_in_tail)
        from slash_suffix [OF B(1) [unfolded mZ] pre us hd this]
        have "us = CHR ''/'' # Z" .
        with B(2) have "''people/'' @ g @ [q1] @ '' class='' @ [q2] @ ''hovercardable'' @ post = Z @ r"
          unfolding X_def by simp
        moreover obtain c g0' where "g0 = c # g0'"
          using h(1) by (cases g0) auto
        ultimately have "c = CHR ''p''" "c \<in> set hexdigit"
          using h(2) unfolding Z_def by auto
        then have False
          by (simp add: hexdigit_def)
        then show ?thesis ..
      qed
    qed
  qed
qed

lemma findall_who_complete:
  "hovercard_ref g s \<Longrightarrow> g \<in> set (findall who_regexp s)"
proof (induction "length s" arbitrary: s rule: less_induct)
  case less
  from less.prems obtain pre q1 q2 post where
    h: "g \<noteq> []" "set g \<subseteq> set hexdigit" "q1 \<in> set quote" "q2 \<in> set quote"
       "s = pre @ ''/people/'' @ g @ [q1] @ '' class='' @ [q2] @ ''hovercardable'' @ post"
    unfolding hovercard_ref_def by blast
  show ?case
  proof (cases "re_match who_regexp s")
    case None
    have "pre \<noteq> []"
    proof
      assume "pre = []"
      then have "(''/people/'' @ g @ [q1] @ '' class='' @ [q2] @ ''hovercardable'', [g], post)
                \<in> set (seq_matches who_regexp s)"
        unfolding who_matches_iff
        by (intro exI [of _ g] exI [of _ q1] exI [of _ q2]) (simp add: h)
      with None show False
        unfolding re_match_who_None_iff by simp
    qed
    then obtain c pre' where pre: "pre = c # pre'"
      by (cases pre) auto
    define t where "t = pre' @ ''/people/'' @ g @ [q1] @ '' class='' @ [q2] @ ''hovercardable'' @ post"
    have st: "s = c # t"
      unfolding t_def h(5) pre by simp
    have "hovercard_ref g t"
      unfolding hovercard_ref_def t_def using h(1-4) by blast
    then have "g \<in> set (findall who_regexp t)"
      using less.hyps [of t] st by simp
    then show ?thesis
      using None st by (simp add: findall_who_None)
  next
    case (Some x)
    obtain m gs r where x: "x = (m, gs, r)" by (cases x)
    from Some x have mt: "re_match who_regexp s = Some (m, gs, r)" by simp
    then have mem: "(m, gs, r) \<in> set (seq_matches who_regexp s)"
      by (simp only: re_match_who_iff)
    from findall_who_Some [OF mt]
    have len: "length r < length s" and fa: "findall who_regexp s = hd gs # findall who_regexp r"
      by simp_all
    from no_overlap [OF mem h]
    show ?thesis
    proof
      assume "gs = [g]"
      then show ?thesis using fa by simp
    next
      assume "\<exists>pre'. r = pre' @ ''/people/'' @ g @ [q1] @ '' class='' @ [q2] @ ''hovercardable'' @ post"
      then have "hovercard_ref g r"
        unfolding hovercard_ref_def using h(1-4) by blast
      then have "g \<in> set (findall who_regexp r)"
        using less.hyps [OF len] by simp
      then show ?thesis using fa by simp
    qed
  qed
qed

section \<open>Properties\<close>

subsection \<open>Post\<close>

text \<open>
  C1, as amended. \<open>_fetchdata()\<close> on a post with a truthy id or guid sends one GET to
  \<^verbatim>\<open>posts/{0}.json\<close>, filled with the guid when the guid is non-empty, also when an id is set,
  and with the id otherwise. A status other than 200 raises \<open>PostError\<close> and leaves the post
  as it was; status 200 with a body that decodes to \<open>j\<close> makes \<open>j\<close> the post's data.
\<close>

theorem fetchdata_guid_first:
  assumes "py_truthy (post_id self) \<or> py_truthy (post_guid self)"
    and "target = (if py_truthy (post_guid self) then post_guid self else post_id self)"
    and "conn \<lparr>verb = GET, path = Format ''posts/{0}.json'' [target]\<rparr> = r"
  shows "sent (fetchdata conn self) = [\<lparr>verb = GET, path = Format ''posts/{0}.json'' [target]\<rparr>]
       \<and> (status_code r \<noteq> 200 \<longrightarrow>
            result (fetchdata conn self)
              = Inl (PostError (Format ''{0}: could not fetch data for post: {1}'' [JInt (status_code r), target]))
            \<and> after (fetchdata conn self) = self)
       \<and> (status_code r = 200 \<and> body r = Inr j \<longrightarrow>
            post_data (after (fetchdata conn self)) = j
            \<and> result (fetchdata conn self) = py_getitem j ''guid'')"
proof (cases "py_truthy (post_guid self)")
  case True
  with assms(2) have t: "target = post_guid self" by simp
  show ?thesis
    using True assms(3) unfolding t
    by (auto simp add: fetchdata_def Let_def response_json_def response_bool_def split: sum.splits)
next
  case False
  with assms(1,2) have t: "target = post_id self" and i: "py_truthy (post_id self)" by simp_all
  show ?thesis
    using False i assms(3) unfolding t
    by (auto simp add: fetchdata_def Let_def response_json_def response_bool_def split: sum.splits)
qed

theorem fetchdata_guid_first_witness:
  "sent (fetchdata (\<lambda>rq. \<lparr>status_code = 200, body = Inr (JObj [(''id'', JInt 5), (''guid'', JStr ''abc'')])\<rparr>)
          \<lparr>post_id = JInt 5, post_guid = JStr ''abc'', post_data = JObj [],
           post_comments = \<lparr>comments_store = None\<rparr>\<rparr>)
     = [\<lparr>verb = GET, path = Format ''posts/{0}.json'' [JStr ''abc'']\<rparr>]
   \<and> post_data (after (fetchdata (\<lambda>rq. \<lparr>status_code = 200, body = Inr (JObj [(''id'', JInt 5), (''guid'', JStr ''abc'')])\<rparr>)
          \<lparr>post_id = JInt 5, post_guid = JStr ''abc'', post_data = JObj [],
           post_comments = \<lparr>comments_store = None\<rparr>\<rparr>))
     = JObj [(''id'', JInt 5), (''guid'', JStr ''abc'')]
   \<and> sent (fetchdata (\<lambda>rq. \<lparr>status_code = 404, body = Inl Malformed\<rparr>)
          \<lparr>post_id = JInt 5, post_guid = JStr [], post_data = JObj [],
           post_comments = \<lparr>comments_store = None\<rparr>\<rparr>)
     = [\<lparr>verb = GET, path = Format ''posts/{0}.json'' [JInt 5]\<rparr>]
   \<and> result (fetchdata (\<lambda>rq. \<lparr>status_code = 404, body = Inl Malformed\<rparr>)
          \<lparr>post_id = JInt 5, post_guid = JStr [], post_data = JObj [],
           post_comments = \<lparr>comments_store = None\<rparr>\<rparr>)
     = Inl (PostError (Format ''{0}: could not fetch data for post: {1}'' [JInt 404, JInt 5]))"
proof -
  let ?p = "\<lparr>post_id = JInt 5, post_guid = JStr ''abc'', post_data = JObj [],
             post_comments = \<lparr>comments_store = None\<rparr>\<rparr>"
  let ?q = "\<lparr>post_id = JInt 5, post_guid = JStr [], post_data = JObj [],
             post_comments = \<lparr>comments_store = None\<rparr>\<rparr>"
  have p1: "py_truthy (post_id ?p) \<or> py_truthy (post_guid ?p)" by simp
  have p2: "JStr ''abc'' = (if py_truthy (post_guid ?p) then post_guid ?p else post_id ?p)" by simp
  have q1: "py_truthy (post_id ?q) \<or> py_truthy (post_guid ?q)" by simp
  have q2: "JInt 5 = (if py_truthy (post_guid ?q) then post_guid ?q else post_id ?q)" by simp
  show ?thesis
    using fetchdata_guid_first [OF p1 p2 refl,
            of "\<lambda>rq. \<lparr>status_code = 200, body = Inr (JObj [(''id'', JInt 5), (''guid'', JStr ''abc'')])\<rparr>"
               "JObj [(''id'', JInt 5), (''guid'', JStr ''abc'')]"]
          fetchdata_guid_first [OF q1 q2 refl, of "\<lambda>rq. \<lparr>status_code = 404, body = Inl Malformed\<rparr>"]
    by simp
qed

text \<open>
  A post with id 5 and guid \<^verbatim>\<open>abc\<close> is fetched by its guid, not by its id.
\<close>

theorem fetchdata_id_counterexample:
  "sent (fetchdata (\<lambda>rq. \<lparr>status_code = 200, body = Inr (JObj [(''id'', JInt 5), (''guid'', JStr ''abc'')])\<rparr>)
          \<lparr>post_id = JInt 5, post_guid = JStr ''abc'', post_data = JObj [],
           post_comments = \<lparr>comments_store = None\<rparr>\<rparr>)
     = [\<lparr>verb = GET, path = Format ''posts/{0}.json'' [JStr ''abc'']\<rparr>]
   \<and> sent (fetchdata (\<lambda>rq. \<lparr>status_code = 200, body = Inr (JObj [(''id'', JInt 5), (''guid'', JStr ''abc'')])\<rparr>)
          \<lparr>post_id = JInt 5, post_guid = JStr ''abc'', post_data = JObj [],
           post_comments = \<lparr>comments_store = None\<rparr>\<rparr>)
     \<noteq> [\<lparr>verb = GET, path = Format ''posts/{0}.json'' [JInt 5]\<rparr>]"
  by (simp add: fetchdata_def Let_def response_bool_def response_json_def)

text \<open>
  C2. When the payload has an \<^verbatim>\<open>id\<close> and \<^verbatim>\<open>interactions.comments_count\<close>,
  \<open>_fetchcomments()\<close> sends a request exactly when the count is truthy; the request is one
  GET to \<^verbatim>\<open>posts/{0}/comments.json\<close> filled with the payload's id; a count of 0 sends
  nothing; the post's own id and guid attributes play no part.
\<close>

theorem fetchcomments_request:
  assumes "py_getitem (post_data self) ''id'' = Inr i"
    and "py_getitem (post_data self) ''interactions'' = Inr ia"
    and "py_getitem ia ''comments_count'' = Inr cnt"
  shows "sent (fetchcomments conn self)
           = (if py_truthy cnt then [\<lparr>verb = GET, path = Format ''posts/{0}/comments.json'' [i]\<rparr>] else [])
       \<and> (sent (fetchcomments conn self) \<noteq> []) = py_truthy cnt
       \<and> (cnt = JInt 0 \<longrightarrow> sent (fetchcomments conn self) = [])
       \<and> sent (fetchcomments conn (self\<lparr>post_id := pid, post_guid := g\<rparr>)) = sent (fetchcomments conn self)"
  using assms
  by (auto simp add: fetchcomments_def Let_def split: sum.splits)

theorem fetchcomments_request_witness:
  "sent (fetchcomments (\<lambda>rq. \<lparr>status_code = 200, body = Inr (JList [])\<rparr>)
          \<lparr>post_id = JInt 0, post_guid = JStr ''abc'',
           post_data = JObj [(''id'', JInt 5), (''guid'', JStr ''abc''),
                             (''interactions'', JObj [(''comments_count'', JInt 2)])],
           post_comments = \<lparr>comments_store = None\<rparr>\<rparr>)
     = [\<lparr>verb = GET, path = Format ''posts/{0}/comments.json'' [JInt 5]\<rparr>]
   \<and> sent (fetchcomments (\<lambda>rq. \<lparr>status_code = 200, body = Inr (JList [])\<rparr>)
          \<lparr>post_id = JInt 0, post_guid = JStr ''abc'',
           post_data = JObj [(''id'', JInt 5), (''guid'', JStr ''abc''),
                             (''interactions'', JObj [(''comments_count'', JInt 0)])],
           post_comments = \<lparr>comments_store = None\<rparr>\<rparr>)
     = []"
proof -
  let ?p = "\<lambda>n. \<lparr>post_id = JInt 0, post_guid = JStr ''abc'',
           post_data = JObj [(''id'', JInt 5), (''guid'', JStr ''abc''),
                             (''interactions'', JObj [(''comments_count'', JInt n)])],
           post_comments = \<lparr>comments_store = None\<rparr>\<rparr>"
  have a: "py_getitem (post_data (?p n)) ''id'' = Inr (JInt 5)" for n by simp
  have b: "py_getitem (post_data (?p n)) ''interactions'' = Inr (JObj [(''comments_count'', JInt n)])" for n
    by simp
  have c: "py_getitem (JObj [(''comments_count'', JInt n)]) ''comments_count'' = Inr (JInt n)" for n
    by simp
  show ?thesis
    using fetchcomments_request [OF a [of 2] b [of 2] c [of 2],
            where conn = "\<lambda>rq. \<lparr>status_code = 200, body = Inr (JList [])\<rparr>"]
          fetchcomments_request [OF a [of 0] b [of 0] c [of 0],
            where conn = "\<lambda>rq. \<lparr>status_code = 200, body = Inr (JList [])\<rparr>"]
    by simp
qed

text \<open>
  C8. \<open>like()\<close> raises \<open>PostError\<close> exactly when the status of the likes POST is not 201. With
  status 201 and a truthy decoded body \<open>j\<close>, on data that has an \<^verbatim>\<open>interactions\<close> object,
  it returns \<open>j\<close> and the \<^verbatim>\<open>likes\<close> entry becomes the one-element list \<open>[j]\<close>, whatever it
  held before.
\<close>

theorem like_201:
  assumes "conn \<lparr>verb = POST, path = Format ''posts/{0}/likes'' [post_id self]\<rparr> = r"
  shows "((\<exists>m. result (like conn self) = Inl (PostError m)) = (status_code r \<noteq> 201))
       \<and> (status_code r \<noteq> 201 \<longrightarrow>
            result (like conn self) = Inl (PostError (Format ''{0}: Post could not be liked.'' [JInt (status_code r)])))
       \<and> (status_code r = 201 \<and> body r = Inr j \<and> py_truthy j
            \<and> post_data self = JObj d \<and> map_of d ''interactions'' = Some (JObj ia) \<longrightarrow>
            result (like conn self) = Inr j
            \<and> post_data (after (like conn self))
                = JObj (AList.update ''interactions'' (JObj (AList.update ''likes'' (JList [j]) ia)) d)
            \<and> (\<exists>ia'. py_getitem (post_data (after (like conn self))) ''interactions'' = Inr ia'
                    \<and> py_getitem ia' ''likes'' = Inr (JList [j])))"
  using assms
  by (auto simp add: like_def Let_def response_json_def update_conv' decode_error_not_PostError
        split: sum.splits option.splits dest: py_getitem_InlD py_setitem_InlD)

theorem like_201_witness:
  "result (like (\<lambda>rq. \<lparr>status_code = 201, body = Inr (JObj [(''id'', JInt 77)])\<rparr>)
          \<lparr>post_id = JInt 5, post_guid = JStr ''abc'',
           post_data = JObj [(''id'', JInt 5),
                             (''interactions'', JObj [(''likes'', JList [JObj [(''id'', JInt 1)], JObj [(''id'', JInt 2)]])])],
           post_comments = \<lparr>comments_store = None\<rparr>\<rparr>)
     = Inr (JObj [(''id'', JInt 77)])
   \<and> post_data (after (like (\<lambda>rq. \<lparr>status_code = 201, body = Inr (JObj [(''id'', JInt 77)])\<rparr>)
          \<lparr>post_id = JInt 5, post_guid = JStr ''abc'',
           post_data = JObj [(''id'', JInt 5),
                             (''interactions'', JObj [(''likes'', JList [JObj [(''id'', JInt 1)], JObj [(''id'', JInt 2)]])])],
           post_comments = \<lparr>comments_store = None\<rparr>\<rparr>))
     = JObj [(''id'', JInt 5), (''interactions'', JObj [(''likes'', JList [JObj [(''id'', JInt 77)]])])]
   \<and> result (like (\<lambda>rq. \<lparr>status_code = 200, body = Inr (JObj [(''id'', JInt 77)])\<rparr>)
          \<lparr>post_id = JInt 5, post_guid = JStr ''abc'',
           post_data = JObj [(''id'', JInt 5),
                             (''interactions'', JObj [(''likes'', JList [JObj [(''id'', JInt 1)], JObj [(''id'', JInt 2)]])])],
           post_comments = \<lparr>comments_store = None\<rparr>\<rparr>)
     = Inl (PostError (Format ''{0}: Post could not be liked.'' [JInt 200]))"
  using like_201 [of "\<lambda>rq. \<lparr>status_code = 201, body = Inr (JObj [(''id'', JInt 77)])\<rparr>"
          "\<lparr>post_id = JInt 5, post_guid = JStr ''abc'',
           post_data = JObj [(''id'', JInt 5),
                             (''interactions'', JObj [(''likes'', JList [JObj [(''id'', JInt 1)], JObj [(''id'', JInt 2)]])])],
           post_comments = \<lparr>comments_store = None\<rparr>\<rparr>" _
          "JObj [(''id'', JInt 77)]"
          "[(''id'', JInt 5),
            (''interactions'', JObj [(''likes'', JList [JObj [(''id'', JInt 1)], JObj [(''id'', JInt 2)]])])]"
          "[(''likes'', JList [JObj [(''id'', JInt 1)], JObj [(''id'', JInt 2)]])]", OF refl]
        like_201 [of "\<lambda>rq. \<lparr>status_code = 200, body = Inr (JObj [(''id'', JInt 77)])\<rparr>"
          "\<lparr>post_id = JInt 5, post_guid = JStr ''abc'',
           post_data = JObj [(''id'', JInt 5),
                             (''interactions'', JObj [(''likes'', JList [JObj [(''id'', JInt 1)], JObj [(''id'', JInt 2)]])])],
           post_comments = \<lparr>comments_store = None\<rparr>\<rparr>", OF refl]
  by (simp add: AList.update.simps)

subsection \<open>Aspect\<close>

text \<open>
  C3, as amended. \<open>addUser\<close> by the status of the \<^verbatim>\<open>aspect_memberships\<close> POST: 400 raises
  the duplicate-record \<open>AspectError\<close>, 404 the user-not-found \<open>AspectError\<close>, any other status
  but 200 the wrong-status-code \<open>AspectError\<close>; 200 with a body that decodes to a value other
  than \<^verbatim>\<open>None\<close> returns that value; 200 with a body on which \<^verbatim>\<open>.json()\<close> raises
  \<^verbatim>\<open>JSONDecodeError\<close>, or which decodes to \<^verbatim>\<open>None\<close>, raises \<open>CSRFProtectionKickedIn\<close>; any
  other exception of \<^verbatim>\<open>.json()\<close> leaves \<open>addUser\<close> as it is.
\<close>

theorem addUser_by_status:
  assumes "conn \<lparr>verb = POST, path = Text ''aspect_memberships''\<rparr> = r"
  shows "(status_code r = 400 \<longrightarrow>
            result (addUser conn self user_id)
              = Inl (AspectError (Format ''duplicate record, user already exists in aspect: {0}'' [JInt 400])))
       \<and> (status_code r = 404 \<longrightarrow>
            result (addUser conn self user_id)
              = Inl (AspectError (Format ''user not found from this pod: {0}'' [JInt 404])))
       \<and> (status_code r \<noteq> 400 \<and> status_code r \<noteq> 404 \<and> status_code r \<noteq> 200 \<longrightarrow>
            result (addUser conn self user_id)
              = Inl (AspectError (Format ''wrong status code: {0}'' [JInt (status_code r)])))
       \<and> (status_code r = 200 \<and> body r = Inr j \<and> j \<noteq> JNull \<longrightarrow>
            result (addUser conn self user_id) = Inr j)
       \<and> (status_code r = 200 \<and> (body r = Inl Malformed \<or> body r = Inr JNull) \<longrightarrow>
            result (addUser conn self user_id) = Inl CSRFProtectionKickedIn)
       \<and> (status_code r = 200 \<and> body r = Inl f \<and> f \<noteq> Malformed \<longrightarrow>
            result (addUser conn self user_id) = Inl (decode_error f))"
proof -
  have f: "f \<noteq> Malformed \<Longrightarrow> decode_error f \<noteq> JSONDecodeError"
    by (cases f) simp_all
  show ?thesis
    using assms f by (auto simp add: addUser_def Let_def response_json_def)
qed

theorem addUser_by_status_witness:
  "result (addUser (\<lambda>rq. \<lparr>status_code = 400, body = Inl Malformed\<rparr>) \<lparr>aspect_id = JInt 3, aspect_name = JNull, aspect_cached = JList []\<rparr> (JInt 8))
     = Inl (AspectError (Format ''duplicate record, user already exists in aspect: {0}'' [JInt 400]))
   \<and> result (addUser (\<lambda>rq. \<lparr>status_code = 404, body = Inl Malformed\<rparr>) \<lparr>aspect_id = JInt 3, aspect_name = JNull, aspect_cached = JList []\<rparr> (JInt 8))
     = Inl (AspectError (Format ''user not found from this pod: {0}'' [JInt 404]))
   \<and> result (addUser (\<lambda>rq. \<lparr>status_code = 500, body = Inl Malformed\<rparr>) \<lparr>aspect_id = JInt 3, aspect_name = JNull, aspect_cached = JList []\<rparr> (JInt 8))
     = Inl (AspectError (Format ''wrong status code: {0}'' [JInt 500]))
   \<and> result (addUser (\<lambda>rq. \<lparr>status_code = 200, body = Inr (JObj [(''id'', JInt 41)])\<rparr>) \<lparr>aspect_id = JInt 3, aspect_name = JNull, aspect_cached = JList []\<rparr> (JInt 8))
     = Inr (JObj [(''id'', JInt 41)])
   \<and> result (addUser (\<lambda>rq. \<lparr>status_code = 200, body = Inl Malformed\<rparr>) \<lparr>aspect_id = JInt 3, aspect_name = JNull, aspect_cached = JList []\<rparr> (JInt 8))
     = Inl CSRFProtectionKickedIn
   \<and> result (addUser (\<lambda>rq. \<lparr>status_code = 200, body = Inr JNull\<rparr>) \<lparr>aspect_id = JInt 3, aspect_name = JNull, aspect_cached = JList []\<rparr> (JInt 8))
     = Inl CSRFProtectionKickedIn
   \<and> result (addUser (\<lambda>rq. \<lparr>status_code = 200, body = Inl IntTooLong\<rparr>) \<lparr>aspect_id = JInt 3, aspect_name = JNull, aspect_cached = JList []\<rparr> (JInt 8))
     = Inl ValueError"
  using addUser_by_status [of "\<lambda>rq. \<lparr>status_code = 400, body = Inl Malformed\<rparr>" _ "\<lparr>aspect_id = JInt 3, aspect_name = JNull, aspect_cached = JList []\<rparr>" "JInt 8", OF refl]
        addUser_by_status [of "\<lambda>rq. \<lparr>status_code = 404, body = Inl Malformed\<rparr>" _ "\<lparr>aspect_id = JInt 3, aspect_name = JNull, aspect_cached = JList []\<rparr>" "JInt 8", OF refl]
        addUser_by_status [of "\<lambda>rq. \<lparr>status_code = 500, body = Inl Malformed\<rparr>" _ "\<lparr>aspect_id = JInt 3, aspect_name = JNull, aspect_cached = JList []\<rparr>" "JInt 8", OF refl]
        addUser_by_status [of "\<lambda>rq. \<lparr>status_code = 200, body = Inr (JObj [(''id'', JInt 41)])\<rparr>" _
          "\<lparr>aspect_id = JInt 3, aspect_name = JNull, aspect_cached = JList []\<rparr>" "JInt 8" "JObj [(''id'', JInt 41)]", OF refl]
        addUser_by_status [of "\<lambda>rq. \<lparr>status_code = 200, body = Inl Malformed\<rparr>" _ "\<lparr>aspect_id = JInt 3, aspect_name = JNull, aspect_cached = JList []\<rparr>" "JInt 8", OF refl]
        addUser_by_status [of "\<lambda>rq. \<lparr>status_code = 200, body = Inr JNull\<rparr>" _ "\<lparr>aspect_id = JInt 3, aspect_name = JNull, aspect_cached = JList []\<rparr>" "JInt 8", OF refl]
        addUser_by_status [where conn = "\<lambda>rq. \<lparr>status_code = 200, body = Inl IntTooLong\<rparr>"
          and self = "\<lparr>aspect_id = JInt 3, aspect_name = JNull, aspect_cached = JList []\<rparr>" and user_id = "JInt 8" and f = IntTooLong, OF refl]
  by simp

text \<open>
  A body of status 200 that the decoder gives up on with \<^verbatim>\<open>RecursionError\<close> (a very long run
  of opening brackets) does not parse, and \<open>addUser\<close> ends in \<open>RecursionError\<close>, not in
  \<open>CSRFProtectionKickedIn\<close>.
\<close>

theorem addUser_decoder_failure_counterexample:
  "result (addUser (\<lambda>rq. \<lparr>status_code = 200, body = Inl NestedTooDeep\<rparr>) \<lparr>aspect_id = JInt 3, aspect_name = JNull, aspect_cached = JList []\<rparr> (JInt 8))
     = Inl RecursionError
   \<and> result (addUser (\<lambda>rq. \<lparr>status_code = 200, body = Inl NestedTooDeep\<rparr>) \<lparr>aspect_id = JInt 3, aspect_name = JNull, aspect_cached = JList []\<rparr> (JInt 8))
     \<noteq> Inl CSRFProtectionKickedIn"
  by (simp add: addUser_def Let_def response_json_def)

subsection \<open>Conversation\<close>

text \<open>
  C4. Whatever the pod answers to the visibility DELETE, \<open>Conversation.delete()\<close> returns
  normally exactly when the status is 404; every other status, 200 and 500 among them,
  raises \<open>ConversationError\<close> with that status. One DELETE is sent and the conversation is
  left as it was.
\<close>

theorem conversation_delete_404_only:
  assumes "conn \<lparr>verb = DELETE, path = Format ''conversations/{0}/visibility/'' [conversation_id self]\<rparr> = r"
  shows "(result (conversation_delete conn self) = Inr ()) = (status_code r = 404)
       \<and> (status_code r \<noteq> 404 \<longrightarrow>
            result (conversation_delete conn self)
              = Inl (ConversationError (Format ''{0}: Conversation could not be deleted.'' [JInt (status_code r)])))
       \<and> sent (conversation_delete conn self)
            = [\<lparr>verb = DELETE, path = Format ''conversations/{0}/visibility/'' [conversation_id self]\<rparr>]
       \<and> after (conversation_delete conn self) = self"
  using assms by (simp add: conversation_delete_def Let_def)

theorem conversation_delete_404_only_witness:
  "result (conversation_delete (\<lambda>rq. \<lparr>status_code = 404, body = Inl Malformed\<rparr>)
             \<lparr>conversation_id = JInt 7, conversation_data = JObj []\<rparr>) = Inr ()
   \<and> result (conversation_delete (\<lambda>rq. \<lparr>status_code = 200, body = Inr (JObj [])\<rparr>)
             \<lparr>conversation_id = JInt 7, conversation_data = JObj []\<rparr>)
       = Inl (ConversationError (Format ''{0}: Conversation could not be deleted.'' [JInt 200]))
   \<and> result (conversation_delete (\<lambda>rq. \<lparr>status_code = 500, body = Inl Malformed\<rparr>)
             \<lparr>conversation_id = JInt 7, conversation_data = JObj []\<rparr>)
       = Inl (ConversationError (Format ''{0}: Conversation could not be deleted.'' [JInt 500]))"
  using conversation_delete_404_only [of "\<lambda>rq. \<lparr>status_code = 404, body = Inl Malformed\<rparr>"
          "\<lparr>conversation_id = JInt 7, conversation_data = JObj []\<rparr>", OF refl]
        conversation_delete_404_only [of "\<lambda>rq. \<lparr>status_code = 200, body = Inr (JObj [])\<rparr>"
          "\<lparr>conversation_id = JInt 7, conversation_data = JObj []\<rparr>", OF refl]
        conversation_delete_404_only [of "\<lambda>rq. \<lparr>status_code = 500, body = Inl Malformed\<rparr>"
          "\<lparr>conversation_id = JInt 7, conversation_data = JObj []\<rparr>", OF refl]
  by simp

subsection \<open>Notification\<close>

text \<open>
  C5, as amended. \<open>who()\<close> on a notification whose \<^verbatim>\<open>note_html\<close> is a string returns a
  list whose members are exactly the hex GUIDs \<open>g\<close> for which \<^verbatim>\<open>/people/\<close>, \<open>g\<close>, a quote,
  \<^verbatim>\<open> class=\<close>, a quote and \<^verbatim>\<open>hovercardable\<close> stand in the text one after the other. A
  \<^verbatim>\<open>/people/<hex>\<close> href that is not followed by the hovercardable class is not returned.
\<close>

theorem who_hovercard_refs:
  assumes "py_getitem (notification_data self) ''note_html'' = Inr (JStr html)"
  shows "\<exists>gs. who self = Inr gs \<and> (\<forall>g. g \<in> set gs \<longleftrightarrow> hovercard_ref g html)"
proof -
  have "who self = Inr (findall who_regexp html)"
    using assms by (simp add: who_def)
  moreover have "\<forall>g. g \<in> set (findall who_regexp html) \<longleftrightarrow> hovercard_ref g html"
    using findall_who_sound findall_who_complete by blast
  ultimately show ?thesis by blast
qed

theorem who_hovercard_refs_witness:
  "who \<lparr>notification_type = JStr ''liked'',
        notification_data = JObj [(''id'', JInt 9), (''unread'', JBool True),
          (''note_html'', JStr (''<a href='' @ [CHR 0x22] @ ''/people/ab12'' @ [CHR 0x22] @ '' class=''
              @ [CHR 0x22] @ ''hovercardable'' @ [CHR 0x22] @ ''>Bob</a> and <a href='' @ [CHR 0x22]
              @ ''/people/cd34'' @ [CHR 0x22] @ ''>Eve</a>''))],
        notification_id = JInt 9, notification_unread = JBool True\<rparr> = Inr [''ab12'']
   \<and> hovercard_ref ''ab12'' (''<a href='' @ [CHR 0x22] @ ''/people/ab12'' @ [CHR 0x22] @ '' class=''
              @ [CHR 0x22] @ ''hovercardable'' @ [CHR 0x22] @ ''>Bob</a> and <a href='' @ [CHR 0x22]
              @ ''/people/cd34'' @ [CHR 0x22] @ ''>Eve</a>'')
   \<and> \<not> hovercard_ref ''cd34'' (''<a href='' @ [CHR 0x22] @ ''/people/ab12'' @ [CHR 0x22] @ '' class=''
              @ [CHR 0x22] @ ''hovercardable'' @ [CHR 0x22] @ ''>Bob</a> and <a href='' @ [CHR 0x22]
              @ ''/people/cd34'' @ [CHR 0x22] @ ''>Eve</a>'')"
proof -
  let ?html = "''<a href='' @ [CHR 0x22] @ ''/people/ab12'' @ [CHR 0x22] @ '' class=''
              @ [CHR 0x22] @ ''hovercardable'' @ [CHR 0x22] @ ''>Bob</a> and <a href='' @ [CHR 0x22]
              @ ''/people/cd34'' @ [CHR 0x22] @ ''>Eve</a>''"
  let ?n = "\<lparr>notification_type = JStr ''liked'',
        notification_data = JObj [(''id'', JInt 9), (''unread'', JBool True), (''note_html'', JStr ?html)],
        notification_id = JInt 9, notification_unread = JBool True\<rparr>"
  have h: "py_getitem (notification_data ?n) ''note_html'' = Inr (JStr ?html)"
    by simp
  have w: "who ?n = Inr [''ab12'']"
    by code_simp
  from who_hovercard_refs [OF h] obtain gs where
    gs: "who ?n = Inr gs" "\<forall>g. g \<in> set gs \<longleftrightarrow> hovercard_ref g ?html"
    by (elim exE conjE) (rule that)
  from gs(1) [unfolded w] have e: "gs = [''ab12'']"
    by simp
  have a: "hovercard_ref ''ab12'' ?html"
    using gs(2) [rule_format, of "''ab12''"] unfolding e by simp
  have b: "\<not> hovercard_ref ''cd34'' ?html"
    using gs(2) [rule_format, of "''cd34''"] unfolding e by simp
  from w a b show ?thesis
    by (intro conjI)
qed

text \<open>
  An anchor whose href is \<^verbatim>\<open>/people/ab12\<close> but which has no hovercardable class: the GUID
  stands in an href of the form \<^verbatim>\<open>/people/<hex>\<close>, and \<open>who()\<close> returns the empty list.
\<close>

theorem who_plain_href_counterexample:
  "spec_people_href ''ab12'' (''<a href='' @ [CHR 0x22] @ ''/people/ab12'' @ [CHR 0x22] @ ''>Bob</a>'')
   \<and> who \<lparr>notification_type = JStr ''liked'',
          notification_data = JObj [(''id'', JInt 9), (''unread'', JBool True),
            (''note_html'', JStr (''<a href='' @ [CHR 0x22] @ ''/people/ab12'' @ [CHR 0x22] @ ''>Bob</a>''))],
          notification_id = JInt 9, notification_unread = JBool True\<rparr> = Inr []"
proof
  show "spec_people_href ''ab12'' (''<a href='' @ [CHR 0x22] @ ''/people/ab12'' @ [CHR 0x22] @ ''>Bob</a>'')"
    unfolding spec_people_href_def
    by (intro exI [of _ "[]"] exI [of _ "CHR 0x22"] exI [of _ "''>Bob</a>''"])
       (simp add: hexdigit_def quote_def)
next
  show "who \<lparr>notification_type = JStr ''liked'',
          notification_data = JObj [(''id'', JInt 9), (''unread'', JBool True),
            (''note_html'', JStr (''<a href='' @ [CHR 0x22] @ ''/people/ab12'' @ [CHR 0x22] @ ''>Bob</a>''))],
          notification_id = JInt 9, notification_unread = JBool True\<rparr> = Inr []"
    by code_simp
qed

text \<open>
  C6. The pattern for the post reference accepts the letters a to f, and the text it matched
  is then read as a decimal number: for a reference \<^verbatim>\<open>/posts/3f2a\<close> the search succeeds and
  \<open>about()\<close> ends in \<open>ValueError\<close> instead of returning an integer.
\<close>

theorem about_hex_reference_ValueError:
  "search aboutid_regexp (''<a href='' @ [CHR 0x22] @ ''/posts/3f2a'' @ [CHR 0x22] @ ''>your post</a>'')
     = Some (''/posts/3f2a'', [], [CHR 0x22] @ ''>your post</a>'')
   \<and> about \<lparr>notification_type = JStr ''liked'',
          notification_data = JObj [(''id'', JInt 9), (''unread'', JBool True),
            (''note_html'', JStr (''<a href='' @ [CHR 0x22] @ ''/posts/3f2a'' @ [CHR 0x22] @ ''>your post</a>''))],
          notification_id = JInt 9, notification_unread = JBool True\<rparr> = Inl ValueError"
  by code_simp

text \<open>
  C9. A notification is built from an envelope whose \<^verbatim>\<open>unread\<close> is true, so its attribute
  \<^verbatim>\<open>unread\<close> is true; \<open>mark(False)\<close> sends the PUT and returns normally whatever the status,
  and sets the \<^verbatim>\<open>unread\<close> entry of the notification's data to false, but the attribute
  \<^verbatim>\<open>unread\<close> is still true afterwards.
\<close>

theorem mark_leaves_unread_attribute:
  "Notification (JObj [(''type'', JStr ''liked''),
                       (''liked'', JObj [(''id'', JInt 9), (''unread'', JBool True)])])
     = Inr \<lparr>notification_type = JStr ''liked'',
            notification_data = JObj [(''id'', JInt 9), (''unread'', JBool True)],
            notification_id = JInt 9, notification_unread = JBool True\<rparr>
   \<and> sent (mark (\<lambda>rq. \<lparr>status_code = 200, body = Inr (JObj [])\<rparr>)
             \<lparr>notification_type = JStr ''liked'',
              notification_data = JObj [(''id'', JInt 9), (''unread'', JBool True)],
              notification_id = JInt 9, notification_unread = JBool True\<rparr> False)
       = [\<lparr>verb = PUT, path = Format ''notifications/{0}'' [JInt 9]\<rparr>]
   \<and> result (mark (\<lambda>rq. \<lparr>status_code = 200, body = Inr (JObj [])\<rparr>)
             \<lparr>notification_type = JStr ''liked'',
              notification_data = JObj [(''id'', JInt 9), (''unread'', JBool True)],
              notification_id = JInt 9, notification_unread = JBool True\<rparr> False) = Inr ()
   \<and> py_getitem (notification_data (after (mark (\<lambda>rq. \<lparr>status_code = 200, body = Inr (JObj [])\<rparr>)
             \<lparr>notification_type = JStr ''liked'',
              notification_data = JObj [(''id'', JInt 9), (''unread'', JBool True)],
              notification_id = JInt 9, notification_unread = JBool True\<rparr> False))) ''unread''
       = Inr (JBool False)
   \<and> notification_unread (after (mark (\<lambda>rq. \<lparr>status_code = 200, body = Inr (JObj [])\<rparr>)
             \<lparr>notification_type = JStr ''liked'',
              notification_data = JObj [(''id'', JInt 9), (''unread'', JBool True)],
              notification_id = JInt 9, notification_unread = JBool True\<rparr> False))
       = JBool True"
  by (simp add: Notification_def mark_def Let_def)

subsection \<open>Comments\<close>

text \<open>
  C7. For the list of N = 0 items, \<open>set_json\<close> on a fresh container leaves the backing store
  \<^verbatim>\<open>None\<close>; \<^verbatim>\<open>__len__\<close> then falls off its end and returns \<^verbatim>\<open>None\<close>, so \<^verbatim>\<open>len()\<close> raises
  \<open>TypeError\<close> where the length 0 is due, while \<^verbatim>\<open>__bool__\<close> answers \<open>False\<close> and iteration
  yields nothing.
\<close>

theorem set_json_empty_len_None:
  "comments_len (after (set_json \<lparr>comments_store = None\<rparr> (JList []))) = None
   \<and> py_len (after (set_json \<lparr>comments_store = None\<rparr> (JList []))) = Inl TypeError
   \<and> comments_len (after (set_json \<lparr>comments_store = None\<rparr> (JList []))) \<noteq> Some (length ([] :: json list))
   \<and> comments_bool (after (set_json \<lparr>comments_store = None\<rparr> (JList []))) = False
   \<and> comments_iter (after (set_json \<lparr>comments_store = None\<rparr> (JList []))) = []"
  by (simp add: set_json_def comments_len_def py_len_def store_truthy_def comments_bool_def
        comments_iter_def)

text \<open>
  C10. A container whose backing store is \<^verbatim>\<open>None\<close> or the empty list: \<^verbatim>\<open>__len__\<close> returns
  \<^verbatim>\<open>None\<close>, so \<^verbatim>\<open>len()\<close> fails with \<open>TypeError\<close>; its truth value is false and iterating it
  yields nothing.
\<close>

theorem comments_empty_len_None:
  assumes "comments_store self = None \<or> comments_store self = Some []"
  shows "comments_len self = None \<and> py_len self = Inl TypeError
       \<and> \<not> comments_bool self \<and> comments_iter self = []"
  using assms by (auto simp add: comments_len_def py_len_def comments_bool_def comments_iter_def store_truthy_def)

theorem comments_empty_len_None_witness:
  "comments_len \<lparr>comments_store = None\<rparr> = None
   \<and> py_len \<lparr>comments_store = None\<rparr> = Inl TypeError
   \<and> \<not> comments_bool \<lparr>comments_store = None\<rparr>
   \<and> comments_iter \<lparr>comments_store = None\<rparr> = []
   \<and> comments_len \<lparr>comments_store = Some []\<rparr> = None
   \<and> py_len \<lparr>comments_store = Some []\<rparr> = Inl TypeError
   \<and> \<not> comments_bool \<lparr>comments_store = Some []\<rparr>
   \<and> comments_iter \<lparr>comments_store = Some []\<rparr> = []"
  using comments_empty_len_None [of "\<lparr>comments_store = None\<rparr>"]
        comments_empty_len_None [of "\<lparr>comments_store = Some []\<rparr>"]
  by simp

end
